theory Spec2Isabelle
  imports Complex_Main "HOL-Library.Sublist" "HOL-Library.Word"
begin

section \<open>Python values used by the XYZ da Vinci plugin\<close>

text \<open>
  A Python \<^verbatim>\<open>str\<close> is a sequence of Unicode code points, a \<^verbatim>\<open>bytes\<close> object a
  sequence of octets. Exceptions are values of \<open>pyerr\<close>; a computation that may
  raise returns \<open>pyerr + 'a\<close>.
\<close>

type_synonym pystr = "nat list"
type_synonym byte = "8 word"
type_synonym pybytes = "byte list"

datatype pyerr =
    ValueError
  | StructError
  | UnicodeEncodeError
  | OverflowError
  | ConnectionError
  | SerialException
  | ZeroDivisionError

definition s2u :: "string \<Rightarrow> pystr" where
  "s2u s = map of_char s"

text \<open>\<^verbatim>\<open>str.isspace\<close> for one code point (the set used by \<^verbatim>\<open>str.strip()\<close>).\<close>

definition is_space :: "nat \<Rightarrow> bool" where
  "is_space c \<longleftrightarrow>
     (9 \<le> c \<and> c \<le> 13) \<or> (28 \<le> c \<and> c \<le> 32) \<or> c = 0x85 \<or> c = 0xA0 \<or> c = 0x1680 \<or>
     (0x2000 \<le> c \<and> c \<le> 0x200A) \<or> c = 0x2028 \<or> c = 0x2029 \<or> c = 0x202F \<or>
     c = 0x205F \<or> c = 0x3000"

text \<open>The line boundaries of \<^verbatim>\<open>str.splitlines()\<close>.\<close>

definition is_linebreak :: "nat \<Rightarrow> bool" where
  "is_linebreak c \<longleftrightarrow>
     (10 \<le> c \<and> c \<le> 13) \<or> (28 \<le> c \<and> c \<le> 30) \<or> c = 0x85 \<or> c = 0x2028 \<or> c = 0x2029"

text \<open>
  \<^verbatim>\<open>str.splitlines()\<close> without \<^verbatim>\<open>keepends\<close>: every line boundary ends a line, CR LF
  counts as one boundary, and a last line without a boundary is kept when it is not empty.
\<close>

fun splitlines :: "pystr \<Rightarrow> pystr list" where
  "splitlines [] = []"
| "splitlines (c # cs) =
     (if is_linebreak c then
        (case cs of
           d # ds \<Rightarrow> if c = 13 \<and> d = 10 then [] # splitlines ds else [] # splitlines cs
         | [] \<Rightarrow> [] # splitlines cs)
      else
        (case splitlines cs of
           [] \<Rightarrow> [[c]]
         | l # ls \<Rightarrow> (c # l) # ls))"

definition strip :: "pystr \<Rightarrow> pystr" where
  "strip s = rev (dropWhile is_space (rev (dropWhile is_space s)))"

text \<open>
  \<^verbatim>\<open>str.lower()\<close>. The source only tests whether the lowered text contains an ASCII
  pattern (\<^verbatim>\<open>"; machine"\<close>, \<^verbatim>\<open>"ok"\<close>), so the model lowers exactly the code points
  whose lower-case form contains an ASCII character: the letters A to Z, U+0130 (which
  becomes i followed by U+0307) and the Kelvin sign U+212A (which becomes k). Every other
  code point lowers to code points outside ASCII and is left as it is.
\<close>

definition lower_cp :: "nat \<Rightarrow> pystr" where
  "lower_cp c =
     (if 65 \<le> c \<and> c \<le> 90 then [c + 32]
      else if c = 0x130 then [0x69, 0x307]
      else if c = 0x212A then [0x6B]
      else [c])"

definition lower :: "pystr \<Rightarrow> pystr" where
  "lower s = concat (map lower_cp s)"

text \<open>\<^verbatim>\<open>sub in s\<close> on strings is \<^const>\<open>sublist\<close>, \<^verbatim>\<open>s.startswith(p)\<close> is \<^const>\<open>prefix\<close>.\<close>

text \<open>\<^verbatim>\<open>str(n)\<close> for an integer: decimal digits, with a minus sign when negative.\<close>

fun digits_nat :: "nat \<Rightarrow> pystr" where
  "digits_nat n = (if n < 10 then [48 + n] else digits_nat (n div 10) @ [48 + n mod 10])"

definition str_int :: "int \<Rightarrow> pystr" where
  "str_int i = (if i < 0 then 45 # digits_nat (nat (- i)) else digits_nat (nat i))"

text \<open>\<^verbatim>\<open>"\n".join(parts)\<close>.\<close>

fun join_nl :: "pystr list \<Rightarrow> pystr" where
  "join_nl [] = []"
| "join_nl [x] = x"
| "join_nl (x # y # ys) = x @ [10] @ join_nl (y # ys)"

text \<open>
  A Python \<^verbatim>\<open>float\<close>: a finite value (its exact rational value), negative zero, or one
  of the three special values. Every float is one of these; the finite values of the
  model form a superset of the finite floats.
\<close>

datatype pyfloat = Finite rat | NegZero | NaN | PosInf | NegInf

definition round_half_even :: "rat \<Rightarrow> int" where
  "round_half_even x =
     (let f = \<lfloor>x\<rfloor>; d = x - of_int f in
      if d < 1 / 2 then f else if 1 / 2 < d then f + 1 else if even f then f else f + 1)"

text \<open>\<^verbatim>\<open>f"{x:.1f}"\<close>: one decimal, correctly rounded, ties to even.\<close>

definition format_1f_abs :: "rat \<Rightarrow> pystr" where
  "format_1f_abs a =
     (let n = nat (round_half_even (a * 10)) in digits_nat (n div 10) @ [46, 48 + n mod 10])"

fun format_1f :: "pyfloat \<Rightarrow> pystr" where
  "format_1f (Finite r) = (if r < 0 then 45 # format_1f_abs (- r) else format_1f_abs r)"
| "format_1f NegZero = s2u ''-0.0''"
| "format_1f NaN = s2u ''nan''"
| "format_1f PosInf = s2u ''inf''"
| "format_1f NegInf = s2u ''-inf''"

section \<open>XYZFileConverter: the G-code preprocessor\<close>

text \<open>
  The body of the loop of \<^verbatim>\<open>_preprocess_gcode\<close>: strip the line, then turn a leading
  \<^verbatim>\<open>G0\<close> followed by a space or a tab, or a line that is \<^verbatim>\<open>G0\<close> alone, into \<^verbatim>\<open>G1\<close>.
\<close>

definition preprocess_line :: "pystr \<Rightarrow> pystr" where
  "preprocess_line line =
     (let stripped = strip line in
      if prefix (s2u ''G0 '') stripped \<or> prefix (s2u ''G0'' @ [9]) stripped
      then s2u ''G1'' @ drop 2 stripped
      else if stripped = s2u ''G0'' then s2u ''G1''
      else stripped)"

text \<open>The eight lines injected when no \<^verbatim>\<open>; machine\<close> comment is found.\<close>

definition header_block :: "pystr \<Rightarrow> int \<Rightarrow> pyfloat \<Rightarrow> pystr list" where
  "header_block model_number print_time_sec filament_mm =
     [s2u ''; machine = '' @ model_number,
      s2u ''; print_time = '' @ str_int print_time_sec,
      s2u ''; total_filament = '' @ format_1f filament_mm,
      s2u ''; nozzle_diameter = 0.4'',
      s2u ''; layer_height = 0.2'',
      s2u ''; filament_diameter = 1.75'',
      s2u ''; filament_type = PLA'',
      []]"

definition has_machine :: "pystr list \<Rightarrow> bool" where
  "has_machine lines =
     list_ex (\<lambda>line. sublist (s2u ''; machine'') (lower line)) (take 50 lines)"

definition preprocess_lines :: "pystr \<Rightarrow> pystr \<Rightarrow> int \<Rightarrow> pyfloat \<Rightarrow> pystr list" where
  "preprocess_lines model_number gcode print_time_sec filament_mm =
     (let lines = splitlines gcode in
      (if \<not> has_machine lines then header_block model_number print_time_sec filament_mm
       else [])
      @ map preprocess_line lines)"

text \<open>\<^verbatim>\<open>_preprocess_gcode\<close>; the first argument is \<^verbatim>\<open>self.model_number\<close>.\<close>

definition preprocess_gcode :: "pystr \<Rightarrow> pystr \<Rightarrow> int \<Rightarrow> pyfloat \<Rightarrow> pystr" where
  "preprocess_gcode model_number gcode print_time_sec filament_mm =
     join_nl (preprocess_lines model_number gcode print_time_sec filament_mm) @ [10]"

text \<open>
  A line begins with a \<^verbatim>\<open>G0\<close> token when it is \<^verbatim>\<open>G0\<close> or starts with \<^verbatim>\<open>G0\<close> and a
  space or a tab; a line is a comment when it starts with a semicolon.
\<close>

definition begins_G0 :: "pystr \<Rightarrow> bool" where
  "begins_G0 line \<longleftrightarrow>
     line = s2u ''G0'' \<or> prefix (s2u ''G0 '') line \<or> prefix (s2u ''G0'' @ [9]) line"

definition is_comment :: "pystr \<Rightarrow> bool" where
  "is_comment line \<longleftrightarrow> prefix (s2u '';'') line"

text \<open>Properties of lines used below: no line boundary inside, no white space at either end.\<close>

definition no_lb :: "pystr \<Rightarrow> bool" where
  "no_lb s \<longleftrightarrow> (\<forall>c\<in>set s. \<not> is_linebreak c)"

definition trimmed :: "pystr \<Rightarrow> bool" where
  "trimmed s \<longleftrightarrow> s = [] \<or> (\<not> is_space (hd s) \<and> \<not> is_space (last s))"

text \<open>The pattern searched for by the header test.\<close>

definition machine_pat :: pystr where
  "machine_pat = s2u ''; machine''"

section \<open>XYZFileConverter: print information\<close>

text \<open>
  A number as \<^verbatim>\<open>extract_print_info\<close> holds it: \<^verbatim>\<open>filament_mm\<close> starts as the integer 0,
  becomes a float when a slicer comment or an E value is read, and is the integer 1000
  when nothing is found.
\<close>

datatype pynum = PInt int | PFloat pyfloat

text \<open>Comparison of numbers as Python compares them: exact, and false on NaN.\<close>

fun float_rank :: "pyfloat \<Rightarrow> (nat \<times> rat) option" where
  "float_rank (Finite r) = Some (1, r)"
| "float_rank NegZero = Some (1, 0)"
| "float_rank PosInf = Some (2, 0)"
| "float_rank NegInf = Some (0, 0)"
| "float_rank NaN = None"

fun num_rank :: "pynum \<Rightarrow> (nat \<times> rat) option" where
  "num_rank (PInt i) = Some (1, of_int i)"
| "num_rank (PFloat x) = float_rank x"

definition num_gt :: "pynum \<Rightarrow> pynum \<Rightarrow> bool" where
  "num_gt a b =
     (case (num_rank a, num_rank b) of
        (Some (i, x), Some (j, y)) \<Rightarrow> j < i \<or> (i = j \<and> y < x)
      | _ \<Rightarrow> False)"

definition num_is_zero :: "pynum \<Rightarrow> bool" where
  "num_is_zero a \<longleftrightarrow> num_rank a = Some (1, 0)"

text \<open>
  The regular expressions of \<^verbatim>\<open>extract_print_info\<close> are evaluated by Python's \<^verbatim>\<open>re\<close>
  module, and the captured texts are converted by \<^verbatim>\<open>int()\<close> and \<^verbatim>\<open>float()\<close>; none of
  these is part of the repository (they depend on the Unicode tables for digits and letter
  case, and on binary floating point). Each is a parameter of the model: a matcher takes
  the text and returns the captured groups, or \<open>None\<close> when the expression does not
  match; a conversion returns \<open>None\<close> when Python raises \<^verbatim>\<open>ValueError\<close>.

  \<^item> \<open>m_time\<close>: \<^verbatim>\<open>re.match(r';\s*TIME\s*[:=]\s*(\d+)', s, re.IGNORECASE)\<close>, group 1;
  \<^item> \<open>m_estimated\<close>: \<^verbatim>\<open>re.match(r';\s*estimated printing time.*?=\s*(.*)', s, re.IGNORECASE)\<close>,
    group 1;
  \<^item> \<open>s_hours\<close>, \<open>s_mins\<close>, \<open>s_secs\<close>: \<^verbatim>\<open>re.search(r'(\d+)\s*h', t)\<close> and the same with
    \<^verbatim>\<open>m\<close> and \<^verbatim>\<open>s\<close>, group 1;
  \<^item> \<open>m_filament\<close>:
    \<^verbatim>\<open>re.match(r';\s*(?:Filament\s*used|MATERIAL)\s*[:=]\s*([\d.]+)\s*(mm|m)?', s, re.IGNORECASE)\<close>,
    groups 1 and 2;
  \<^item> \<open>m_layer_count\<close>: \<^verbatim>\<open>re.match(r';\s*LAYER[_\s]*COUNT\s*[:=]\s*(\d+)', s, re.IGNORECASE)\<close>,
    group 1;
  \<^item> \<open>m_layer\<close>: \<^verbatim>\<open>re.match(r';\s*LAYER\s*[:=]\s*\d+', s, re.IGNORECASE)\<close>;
  \<^item> \<open>s_evalue\<close>: \<^verbatim>\<open>re.search(r'E([\d.]+)', line)\<close>, group 1;
  \<^item> \<open>to_int\<close>: \<^verbatim>\<open>int(text)\<close>; \<open>to_float\<close>: \<^verbatim>\<open>float(text)\<close>; \<open>times_1000\<close>: \<^verbatim>\<open>val * 1000\<close>
    on floats.
\<close>

record re_lib =
  m_time :: "pystr \<Rightarrow> pystr option"
  m_estimated :: "pystr \<Rightarrow> pystr option"
  s_hours :: "pystr \<Rightarrow> pystr option"
  s_mins :: "pystr \<Rightarrow> pystr option"
  s_secs :: "pystr \<Rightarrow> pystr option"
  m_filament :: "pystr \<Rightarrow> (pystr \<times> pystr option) option"
  m_layer_count :: "pystr \<Rightarrow> pystr option"
  m_layer :: "pystr \<Rightarrow> bool"
  s_evalue :: "pystr \<Rightarrow> pystr option"
  to_int :: "pystr \<Rightarrow> int option"
  to_float :: "pystr \<Rightarrow> pyfloat option"
  times_1000 :: "pyfloat \<Rightarrow> pyfloat"

record print_info =
  print_time_sec :: int
  filament_mm :: pynum
  layer_count :: int

text \<open>\<^verbatim>\<open>int(g.group(1)) * k if g else 0\<close>, raising when \<^verbatim>\<open>int\<close> raises.\<close>

definition time_part :: "re_lib \<Rightarrow> pystr option \<Rightarrow> int \<Rightarrow> pyerr + int" where
  "time_part L g k =
     (case g of
        None \<Rightarrow> Inr 0
      | Some d \<Rightarrow> (case to_int L d of None \<Rightarrow> Inl ValueError | Some v \<Rightarrow> Inr (v * k)))"

text \<open>
  The body of the first loop. Each branch that matches ends the iteration
  (\<^verbatim>\<open>continue\<close>); the conversions of that loop are not guarded, so their \<^verbatim>\<open>ValueError\<close>
  leaves the function.
\<close>

definition info_step :: "re_lib \<Rightarrow> print_info \<Rightarrow> pystr \<Rightarrow> pyerr + print_info" where
  "info_step L st line =
     (let line_stripped = strip line in
      case m_time L line_stripped of
        Some g \<Rightarrow>
          (case to_int L g of
             None \<Rightarrow> Inl ValueError
           | Some v \<Rightarrow> Inr (st\<lparr>print_time_sec := v\<rparr>))
      | None \<Rightarrow>
      (case m_estimated L line_stripped of
        Some time_str \<Rightarrow>
          (case time_part L (s_hours L time_str) 3600 of
             Inl e \<Rightarrow> Inl e
           | Inr h \<Rightarrow>
          (case time_part L (s_mins L time_str) 60 of
             Inl e \<Rightarrow> Inl e
           | Inr m \<Rightarrow>
          (case time_part L (s_secs L time_str) 1 of
             Inl e \<Rightarrow> Inl e
           | Inr s \<Rightarrow> Inr (st\<lparr>print_time_sec := h + m + s\<rparr>))))
      | None \<Rightarrow>
      (case m_filament L line_stripped of
        Some (g1, g2) \<Rightarrow>
          (case to_float L g1 of
             None \<Rightarrow> Inl ValueError
           | Some val \<Rightarrow>
               let unit = lower (case g2 of None \<Rightarrow> s2u ''mm''
                                 | Some u \<Rightarrow> if u = [] then s2u ''mm'' else u) in
               if unit = s2u ''m'' then Inr (st\<lparr>filament_mm := PFloat (times_1000 L val)\<rparr>)
               else Inr (st\<lparr>filament_mm := PFloat val\<rparr>))
      | None \<Rightarrow>
      (case m_layer_count L line_stripped of
        Some g \<Rightarrow>
          (case to_int L g of
             None \<Rightarrow> Inl ValueError
           | Some v \<Rightarrow> Inr (st\<lparr>layer_count := v\<rparr>))
      | None \<Rightarrow>
          if m_layer L line_stripped then Inr (st\<lparr>layer_count := layer_count st + 1\<rparr>)
          else Inr st))))"

fun info_loop :: "re_lib \<Rightarrow> print_info \<Rightarrow> pystr list \<Rightarrow> pyerr + print_info" where
  "info_loop L st [] = Inr st"
| "info_loop L st (line # rest) =
     (case info_step L st line of Inl e \<Rightarrow> Inl e | Inr st' \<Rightarrow> info_loop L st' rest)"

text \<open>The count of lines that start, once stripped, with \<^verbatim>\<open>G1\<close> or \<^verbatim>\<open>G0\<close> and a space.\<close>

definition g1_count :: "pystr list \<Rightarrow> nat" where
  "g1_count lines =
     length (filter (\<lambda>line. prefix (s2u ''G1 '') (strip line) \<or> prefix (s2u ''G0 '') (strip line))
               lines)"

text \<open>The second loop: the largest E value; here \<^verbatim>\<open>ValueError\<close> is caught and ignored.\<close>

definition max_e_step :: "re_lib \<Rightarrow> pynum \<Rightarrow> pystr \<Rightarrow> pynum" where
  "max_e_step L max_e line =
     (case s_evalue L line of
        None \<Rightarrow> max_e
      | Some g \<Rightarrow>
          (case to_float L g of
             None \<Rightarrow> max_e
           | Some e_val \<Rightarrow> if num_gt (PFloat e_val) max_e then PFloat e_val else max_e))"

definition extract_print_info :: "re_lib \<Rightarrow> pystr \<Rightarrow> pyerr + print_info" where
  "extract_print_info L gcode =
     (case info_loop L \<lparr>print_time_sec = 0, filament_mm = PInt 0, layer_count = 0\<rparr>
             (splitlines gcode) of
        Inl e \<Rightarrow> Inl e
      | Inr st \<Rightarrow>
          let st1 = (if print_time_sec st = 0
                     then st\<lparr>print_time_sec := max 60 (int (g1_count (splitlines gcode)) div 10)\<rparr>
                     else st);
              st2 = (if num_is_zero (filament_mm st1)
                     then let max_e = foldl (max_e_step L) (PInt 0) (splitlines gcode) in
                          st1\<lparr>filament_mm := (if num_gt max_e (PInt 0) then max_e else PInt 1000)\<rparr>
                     else st1)
          in Inr st2)"

section \<open>XYZProtocol: the command surface\<close>

text \<open>
  \<^verbatim>\<open>_send_command\<close> is the transport: it takes the command text and returns the reply
  with the terminator removed, or raises. Each command of the source wraps one call in
  \<^verbatim>\<open>try ... except Exception: return False\<close>.
\<close>

type_synonym transport = "pystr \<Rightarrow> pyerr + pystr"

definition home :: "transport \<Rightarrow> bool" where
  "home send = (case send (s2u ''XYZv3/action=home'') of
       Inl e \<Rightarrow> False
     | Inr resp \<Rightarrow> sublist (s2u ''ok'') (lower resp) \<or> \<not> sublist (s2u ''E0'') resp)"

definition load_filament_start :: "transport \<Rightarrow> bool" where
  "load_filament_start send = (case send (s2u ''XYZv3/action=loadfilament'') of
       Inl e \<Rightarrow> False
     | Inr resp \<Rightarrow> sublist (s2u ''ok'') (lower resp) \<or> \<not> sublist (s2u ''E0'') resp)"

definition load_filament_cancel :: "transport \<Rightarrow> bool" where
  "load_filament_cancel send = (case send (s2u ''XYZv3/action=loadfilamentcancel'') of
       Inl e \<Rightarrow> False
     | Inr resp \<Rightarrow> sublist (s2u ''ok'') (lower resp) \<or> \<not> sublist (s2u ''E0'') resp)"

definition unload_filament_start :: "transport \<Rightarrow> bool" where
  "unload_filament_start send = (case send (s2u ''XYZv3/action=unloadfilament'') of
       Inl e \<Rightarrow> False
     | Inr resp \<Rightarrow> sublist (s2u ''ok'') (lower resp) \<or> \<not> sublist (s2u ''E0'') resp)"

definition unload_filament_cancel :: "transport \<Rightarrow> bool" where
  "unload_filament_cancel send = (case send (s2u ''XYZv3/action=unloadfilamentcancel'') of
       Inl e \<Rightarrow> False
     | Inr resp \<Rightarrow> sublist (s2u ''ok'') (lower resp) \<or> \<not> sublist (s2u ''E0'') resp)"

definition cancel_print :: "transport \<Rightarrow> bool" where
  "cancel_print send = (case send (s2u ''XYZv3/action=cancel'') of
       Inl e \<Rightarrow> False
     | Inr resp \<Rightarrow> sublist (s2u ''ok'') (lower resp) \<or> \<not> sublist (s2u ''E0'') resp)"

definition pause_print :: "transport \<Rightarrow> bool" where
  "pause_print send = (case send (s2u ''XYZv3/action=pause'') of
       Inl e \<Rightarrow> False
     | Inr resp \<Rightarrow> sublist (s2u ''ok'') (lower resp) \<or> \<not> sublist (s2u ''E0'') resp)"

definition resume_print :: "transport \<Rightarrow> bool" where
  "resume_print send = (case send (s2u ''XYZv3/action=resume'') of
       Inl e \<Rightarrow> False
     | Inr resp \<Rightarrow> sublist (s2u ''ok'') (lower resp) \<or> \<not> sublist (s2u ''E0'') resp)"

definition calibrate_start :: "transport \<Rightarrow> bool" where
  "calibrate_start send = (case send (s2u ''XYZv3/action=calibratejr'') of
       Inl e \<Rightarrow> False
     | Inr resp \<Rightarrow> sublist (s2u ''ok'') (lower resp) \<or> \<not> sublist (s2u ''E0'') resp)"

definition clean_nozzle_start :: "transport \<Rightarrow> bool" where
  "clean_nozzle_start send = (case send (s2u ''XYZv3/action=cleannozzle'') of
       Inl e \<Rightarrow> False
     | Inr resp \<Rightarrow> sublist (s2u ''ok'') (lower resp) \<or> \<not> sublist (s2u ''E0'') resp)"

definition clean_nozzle_cancel :: "transport \<Rightarrow> bool" where
  "clean_nozzle_cancel send = (case send (s2u ''XYZv3/action=cleannozzlecancel'') of
       Inl e \<Rightarrow> False
     | Inr resp \<Rightarrow> sublist (s2u ''ok'') (lower resp) \<or> \<not> sublist (s2u ''E0'') resp)"

text \<open>\<^verbatim>\<open>jog(axis, direction, distance)\<close> sends \<^verbatim>\<open>XYZv3/action=jog:{<axis>:<distance * direction>}\<close>.\<close>

definition jog :: "transport \<Rightarrow> pystr \<Rightarrow> int \<Rightarrow> int \<Rightarrow> bool" where
  "jog send axis direction distance =
     (let val = distance * direction in
      case send (s2u ''XYZv3/action=jog:{'' @ axis @ s2u '':'' @ str_int val @ s2u ''}'') of
        Inl e \<Rightarrow> False
      | Inr resp \<Rightarrow> sublist (s2u ''ok'') (lower resp) \<or> \<not> sublist (s2u ''E0'') resp)"

definition z_offset_set :: "transport \<Rightarrow> int \<Rightarrow> bool" where
  "z_offset_set send v = (case send (s2u ''XYZv3/config=zoffset:'' @ str_int v) of
       Inl e \<Rightarrow> False
     | Inr resp \<Rightarrow> sublist (s2u ''ok'') (lower resp) \<or> \<not> sublist (s2u ''E0'') resp)"

definition auto_level_on :: "transport \<Rightarrow> bool" where
  "auto_level_on send = (case send (s2u ''XYZv3/config=autolevel:on'') of
       Inl e \<Rightarrow> False
     | Inr resp \<Rightarrow> sublist (s2u ''ok'') (lower resp))"

definition auto_level_off :: "transport \<Rightarrow> bool" where
  "auto_level_off send = (case send (s2u ''XYZv3/config=autolevel:off'') of
       Inl e \<Rightarrow> False
     | Inr resp \<Rightarrow> sublist (s2u ''ok'') (lower resp))"

definition buzzer_on :: "transport \<Rightarrow> bool" where
  "buzzer_on send = (case send (s2u ''XYZv3/config=buzzer:on'') of
       Inl e \<Rightarrow> False
     | Inr resp \<Rightarrow> sublist (s2u ''ok'') (lower resp))"

definition buzzer_off :: "transport \<Rightarrow> bool" where
  "buzzer_off send = (case send (s2u ''XYZv3/config=buzzer:off'') of
       Inl e \<Rightarrow> False
     | Inr resp \<Rightarrow> sublist (s2u ''ok'') (lower resp))"

text \<open>The command surface as one type, to quantify over it.\<close>

datatype command =
    Home | LoadFilamentStart | LoadFilamentCancel | UnloadFilamentStart
  | UnloadFilamentCancel | CancelPrint | PausePrint | ResumePrint | CalibrateStart
  | CleanNozzleStart | CleanNozzleCancel | Jog pystr int int | ZOffsetSet int
  | AutoLevelOn | AutoLevelOff | BuzzerOn | BuzzerOff

fun run_command :: "transport \<Rightarrow> command \<Rightarrow> bool" where
  "run_command send Home = home send"
| "run_command send LoadFilamentStart = load_filament_start send"
| "run_command send LoadFilamentCancel = load_filament_cancel send"
| "run_command send UnloadFilamentStart = unload_filament_start send"
| "run_command send UnloadFilamentCancel = unload_filament_cancel send"
| "run_command send CancelPrint = cancel_print send"
| "run_command send PausePrint = pause_print send"
| "run_command send ResumePrint = resume_print send"
| "run_command send CalibrateStart = calibrate_start send"
| "run_command send CleanNozzleStart = clean_nozzle_start send"
| "run_command send CleanNozzleCancel = clean_nozzle_cancel send"
| "run_command send (Jog axis direction distance) = jog send axis direction distance"
| "run_command send (ZOffsetSet v) = z_offset_set send v"
| "run_command send AutoLevelOn = auto_level_on send"
| "run_command send AutoLevelOff = auto_level_off send"
| "run_command send BuzzerOn = buzzer_on send"
| "run_command send BuzzerOff = buzzer_off send"

text \<open>The four toggles whose success test is the \<^verbatim>\<open>ok\<close> test alone.\<close>

fun ok_only :: "command \<Rightarrow> bool" where
  "ok_only AutoLevelOn = True"
| "ok_only AutoLevelOff = True"
| "ok_only BuzzerOn = True"
| "ok_only BuzzerOff = True"
| "ok_only _ = False"

section \<open>XYZProtocol: the status query\<close>

text \<open>The names of \<^verbatim>\<open>PRINTER_DB\<close>, by model number.\<close>

definition PRINTER_DB :: "(pystr \<times> pystr) list" where
  "PRINTER_DB =
     [(s2u ''dv1MX0A000'', s2u ''da Vinci miniMaker''),
      (s2u ''dv1MW0A000'', s2u ''da Vinci mini w''),
      (s2u ''dv1MW0B000'', s2u ''da Vinci mini wA''),
      (s2u ''dv1MW0C000'', s2u ''da Vinci mini w+''),
      (s2u ''dv1NX0A000'', s2u ''da Vinci nano''),
      (s2u ''dv1NW0A000'', s2u ''da Vinci nano w''),
      (s2u ''dv1JP0A000'', s2u ''da Vinci Jr. 1.0''),
      (s2u ''dv1JW0A000'', s2u ''da Vinci Jr. 1.0W''),
      (s2u ''dv1JA0A000'', s2u ''da Vinci Jr. 1.0A''),
      (s2u ''dv1JS0A000'', s2u ''da Vinci Jr. 1.0 3in1''),
      (s2u ''dv1JO0A000'', s2u ''da Vinci Jr. 1.0 3in1 (Open)''),
      (s2u ''dv1JPWA000'', s2u ''da Vinci Jr. 1.0 Pro''),
      (s2u ''dv1JWWA000'', s2u ''da Vinci Jr. 1.0W Pro''),
      (s2u ''dv2JX0A000'', s2u ''da Vinci Jr. 2.0 Mix''),
      (s2u ''dv1PA0A000'', s2u ''da Vinci 1.0 Pro''),
      (s2u ''dv1PS0A000'', s2u ''da Vinci 1.0 Pro 3in1''),
      (s2u ''dv1SA0A000'', s2u ''da Vinci 1.0 Super'')]"

record XYZPrinterStatus =
  model_number :: pystr
  machine_name :: pystr
  serial_number :: pystr
  firmware_version :: pystr
  state :: int
  sub_state :: int
  extruder_temp :: int
  extruder_target :: int
  bed_temp :: int
  bed_target :: int
  print_pct :: int
  print_elapsed_min :: int
  print_remaining_min :: int
  error_code :: int
  filament_remaining_mm :: int
  z_offset :: int
  auto_level :: bool

text \<open>\<^verbatim>\<open>XYZPrinterStatus()\<close>: the values set by \<^verbatim>\<open>__init__\<close>.\<close>

definition new_status :: XYZPrinterStatus where
  "new_status =
     \<lparr>model_number = [], machine_name = [], serial_number = [], firmware_version = [],
      state = 0, sub_state = 0, extruder_temp = 0, extruder_target = 0, bed_temp = 0,
      bed_target = 0, print_pct = 0, print_elapsed_min = 0, print_remaining_min = 0,
      error_code = 0, filament_remaining_mm = 0, z_offset = 0, auto_level = False\<rparr>"

definition is_ascii_letter :: "nat \<Rightarrow> bool" where
  "is_ascii_letter c \<longleftrightarrow> (65 \<le> c \<and> c \<le> 90) \<or> (97 \<le> c \<and> c \<le> 122)"

text \<open>
  \<^verbatim>\<open>re.split(r'\.(?=[a-zA-Z]:)', line)\<close>: the text is cut at every dot whose next two
  characters are an ASCII letter and a colon; the dot is dropped, the two characters stay.
\<close>

definition dot_before_key :: "nat \<Rightarrow> pystr \<Rightarrow> bool" where
  "dot_before_key c cs \<longleftrightarrow>
     c = 46 \<and> (case cs of a # b # rest \<Rightarrow> is_ascii_letter a \<and> b = 58 | _ \<Rightarrow> False)"

fun re_split_fields :: "pystr \<Rightarrow> pystr list" where
  "re_split_fields [] = [[]]"
| "re_split_fields (c # cs) =
     (if dot_before_key c cs then [] # re_split_fields cs
      else (case re_split_fields cs of
              [] \<Rightarrow> [[c]]
            | l # ls \<Rightarrow> (c # l) # ls))"

text \<open>\<^verbatim>\<open>val.split(',')\<close>.\<close>

fun split_comma :: "pystr \<Rightarrow> pystr list" where
  "split_comma [] = [[]]"
| "split_comma (c # cs) =
     (if c = 44 then [] # split_comma cs
      else (case split_comma cs of
              [] \<Rightarrow> [[c]]
            | l # ls \<Rightarrow> (c # l) # ls))"

text \<open>
  \<^verbatim>\<open>int(s)\<close> on a string: white space around the number is dropped, a sign is allowed,
  and single underscores may stand between digits; anything else raises \<^verbatim>\<open>ValueError\<close>
  (\<open>None\<close>). The replies parsed here were decoded as ASCII with replacement, so the only
  digits that can occur are the ASCII ones.
\<close>

definition is_digit :: "nat \<Rightarrow> bool" where
  "is_digit c \<longleftrightarrow> 48 \<le> c \<and> c \<le> 57"

fun int_digits :: "nat \<Rightarrow> bool \<Rightarrow> pystr \<Rightarrow> nat option" where
  "int_digits acc prev_digit [] = (if prev_digit then Some acc else None)"
| "int_digits acc prev_digit (c # cs) =
     (if is_digit c then int_digits (acc * 10 + (c - 48)) True cs
      else if c = 95 \<and> prev_digit then int_digits acc False cs
      else None)"

definition py_int :: "pystr \<Rightarrow> int option" where
  "py_int s =
     (case strip s of
        [] \<Rightarrow> None
      | c # cs \<Rightarrow>
          if c = 45 then map_option (\<lambda>n. - int n) (int_digits 0 False cs)
          else if c = 43 then map_option int (int_digits 0 False cs)
          else map_option int (int_digits 0 False (c # cs)))"

text \<open>
  One segment of a status line. The source runs the assignments of a key in order inside
  one \<^verbatim>\<open>try\<close>: a \<^verbatim>\<open>ValueError\<close> or \<^verbatim>\<open>IndexError\<close> ends the segment and keeps what was
  assigned before it.
\<close>

definition parse_j :: "XYZPrinterStatus \<Rightarrow> pystr \<Rightarrow> XYZPrinterStatus" where
  "parse_j st val =
     (case split_comma val of
        [] \<Rightarrow> st
      | p0 # ps \<Rightarrow>
          (case py_int p0 of
             None \<Rightarrow> st
           | Some v \<Rightarrow>
               let st1 = st\<lparr>state := v\<rparr> in
               (case ps of
                  [] \<Rightarrow> st1
                | p1 # _ \<Rightarrow> (case py_int p1 of None \<Rightarrow> st1 | Some w \<Rightarrow> st1\<lparr>sub_state := w\<rparr>))))"

definition parse_t :: "XYZPrinterStatus \<Rightarrow> pystr \<Rightarrow> XYZPrinterStatus" where
  "parse_t st val =
     (let parts = split_comma val in
      if length parts \<ge> 2 then
        (case py_int (parts ! 1) of
           None \<Rightarrow> st
         | Some a \<Rightarrow>
             let st1 = st\<lparr>extruder_temp := a\<rparr> in
             if length parts \<ge> 3 then
               (case py_int (parts ! 2) of
                  None \<Rightarrow> st1
                | Some b \<Rightarrow>
                    let st2 = st1\<lparr>bed_temp := b\<rparr> in
                    if length parts \<ge> 4 then
                      (case py_int (parts ! 3) of
                         None \<Rightarrow> st2
                       | Some c \<Rightarrow> st2\<lparr>extruder_target := c\<rparr>)
                    else st2)
             else st1)
      else st)"

definition parse_n :: "XYZPrinterStatus \<Rightarrow> pystr \<Rightarrow> XYZPrinterStatus" where
  "parse_n st val =
     (let st1 = st\<lparr>model_number := strip val\<rparr> in
      case map_of PRINTER_DB (model_number st1) of
        None \<Rightarrow> st1
      | Some name \<Rightarrow> st1\<lparr>machine_name := name\<rparr>)"

definition parse_d :: "XYZPrinterStatus \<Rightarrow> pystr \<Rightarrow> XYZPrinterStatus" where
  "parse_d st val =
     (let parts = split_comma val in
      if length parts \<ge> 1 then
        (case py_int (parts ! 0) of
           None \<Rightarrow> st
         | Some a \<Rightarrow>
             let st1 = st\<lparr>print_pct := a\<rparr> in
             if length parts \<ge> 2 then
               (case py_int (parts ! 1) of
                  None \<Rightarrow> st1
                | Some b \<Rightarrow>
                    let st2 = st1\<lparr>print_elapsed_min := b\<rparr> in
                    if length parts \<ge> 3 then
                      (case py_int (parts ! 2) of
                         None \<Rightarrow> st2
                       | Some c \<Rightarrow> st2\<lparr>print_remaining_min := c\<rparr>)
                    else st2)
             else st1)
      else st)"

definition parse_f :: "XYZPrinterStatus \<Rightarrow> pystr \<Rightarrow> XYZPrinterStatus" where
  "parse_f st val =
     (case split_comma val of
        [] \<Rightarrow> st
      | p0 # _ \<Rightarrow> (case py_int p0 of None \<Rightarrow> st | Some v \<Rightarrow> st\<lparr>filament_remaining_mm := v\<rparr>))"

definition parse_segment :: "XYZPrinterStatus \<Rightarrow> pystr \<Rightarrow> XYZPrinterStatus" where
  "parse_segment st seg0 =
     (let seg = strip seg0 in
      if length seg < 2 \<or> seg ! 1 \<noteq> 58 then st
      else
        let key = seg ! 0; val = drop 2 seg in
        if key = 106 then parse_j st val
        else if key = 116 then parse_t st val
        else if key = 110 then parse_n st val
        else if key = 115 then st\<lparr>serial_number := strip val\<rparr>
        else if key = 118 then st\<lparr>firmware_version := strip val\<rparr>
        else if key = 101 then (case py_int val of None \<Rightarrow> st | Some v \<Rightarrow> st\<lparr>error_code := v\<rparr>)
        else if key = 100 then parse_d st val
        else if key = 102 then parse_f st val
        else if key = 111 then (case py_int val of None \<Rightarrow> st | Some v \<Rightarrow> st\<lparr>z_offset := v\<rparr>)
        else if key = 108 then st\<lparr>auto_level := (strip val = s2u ''1'')\<rparr>
        else st)"

definition parse_status_line :: "XYZPrinterStatus \<Rightarrow> pystr \<Rightarrow> XYZPrinterStatus" where
  "parse_status_line st line0 =
     (let line = strip line0 in
      if line = [] then st
      else foldl parse_segment st (re_split_fields line))"

text \<open>
  \<^verbatim>\<open>query_status\<close>: send \<^verbatim>\<open>XYZv3/query=a\<close>; when the transport raises, the fresh status
  is returned, otherwise every line of the reply is parsed in order.
\<close>

definition query_status :: "transport \<Rightarrow> XYZPrinterStatus" where
  "query_status send =
     (case send (s2u ''XYZv3/query=a'') of
        Inl e \<Rightarrow> new_status
      | Inr response \<Rightarrow> foldl parse_status_line new_status (splitlines response))"

text \<open>Joining segments with dots, the inverse of the split.\<close>

fun join_dot :: "pystr list \<Rightarrow> pystr" where
  "join_dot [] = []"
| "join_dot [x] = x"
| "join_dot (x # y # ys) = x @ [46] @ join_dot (y # ys)"

definition starts_with_key :: "pystr \<Rightarrow> bool" where
  "starts_with_key seg \<longleftrightarrow> (case seg of a # b # rest \<Rightarrow> is_ascii_letter a \<and> b = 58 | _ \<Rightarrow> False)"

section \<open>Lemmas: splitting and stripping\<close>

lemma linebreak_is_space: "is_linebreak c \<Longrightarrow> is_space c"
  by (auto simp: is_linebreak_def is_space_def)

declare splitlines.simps(2) [simp del]

lemma splitlines_nlb:
  "\<not> is_linebreak c \<Longrightarrow>
   splitlines (c # cs) = (case splitlines cs of [] \<Rightarrow> [[c]] | l # ls \<Rightarrow> (c # l) # ls)"
  by (simp add: splitlines.simps(2))

lemma splitlines_crlf: "splitlines (13 # 10 # ds) = [] # splitlines ds"
  by (simp add: splitlines.simps(2) is_linebreak_def)

lemma splitlines_lb_end: "is_linebreak c \<Longrightarrow> splitlines [c] = [[]]"
  by (simp add: splitlines.simps(2))

lemma splitlines_lb:
  "is_linebreak c \<Longrightarrow> \<not> (c = 13 \<and> d = 10) \<Longrightarrow> splitlines (c # d # ds) = [] # splitlines (d # ds)"
  by (subst splitlines.simps(2)) auto

lemma splitlines_all_no_lb: "\<forall>l\<in>set (splitlines s). no_lb l"
proof (induction s rule: splitlines.induct)
  case 1
  show ?case by simp
next
  case (2 c cs)
  show ?case
  proof (cases "is_linebreak c")
    case lb: True
    show ?thesis
    proof (cases cs)
      case Nil
      with lb show ?thesis by (simp add: splitlines_lb_end no_lb_def)
    next
      case (Cons d ds)
      show ?thesis
      proof (cases "c = 13 \<and> d = 10")
        case True
        have "\<forall>l\<in>set (splitlines ds). no_lb l" by (rule "2.IH"(2) [OF lb Cons True])
        then show ?thesis unfolding Cons using True by (simp add: splitlines_crlf no_lb_def)
      next
        case False
        have "\<forall>l\<in>set (splitlines cs). no_lb l" by (rule "2.IH"(3) [OF lb Cons False])
        then show ?thesis unfolding Cons by (simp add: splitlines_lb [OF lb False] no_lb_def)
      qed
    qed
  next
    case nlb: False
    have ih: "\<forall>l\<in>set (splitlines cs). no_lb l" by (rule "2.IH"(4) [OF nlb])
    show ?thesis
    proof (cases "splitlines cs")
      case Nil
      with nlb show ?thesis by (simp add: splitlines_nlb no_lb_def)
    next
      case (Cons l ls)
      with ih have "no_lb l" and "\<forall>l\<in>set ls. no_lb l" by simp_all
      with nlb Cons show ?thesis by (simp add: splitlines_nlb no_lb_def)
    qed
  qed
qed

lemma splitlines_no_lb: "l \<in> set (splitlines s) \<Longrightarrow> no_lb l"
  using splitlines_all_no_lb by blast

lemma splitlines_line_nl:
  "no_lb l \<Longrightarrow> splitlines (l @ 10 # rest) = l # splitlines rest"
proof (induction l)
  case Nil
  have lb: "is_linebreak 10" by (simp add: is_linebreak_def)
  show ?case
  proof (cases rest)
    case Nil
    then show ?thesis by (simp add: splitlines_lb_end [OF lb])
  next
    case (Cons d ds)
    have "\<not> ((10::nat) = 13 \<and> d = 10)" by simp
    from splitlines_lb [OF lb this] show ?thesis unfolding Cons by simp
  qed
next
  case (Cons c l)
  then have nlb: "\<not> is_linebreak c" and l: "no_lb l" by (simp_all add: no_lb_def)
  show ?case using Cons.IH [OF l] by (simp add: splitlines_nlb [OF nlb])
qed

lemma splitlines_join_nl:
  "ls \<noteq> [] \<Longrightarrow> \<forall>l\<in>set ls. no_lb l \<Longrightarrow> splitlines (join_nl ls @ [10]) = ls"
proof (induction ls rule: join_nl.induct)
  case 1
  then show ?case by simp
next
  case (2 x)
  then show ?case using splitlines_line_nl [of x "[]"] by simp
next
  case (3 x y ys)
  then show ?case using splitlines_line_nl [of x "join_nl (y # ys) @ [10]"] by simp
qed

lemma strip_split:
  "dropWhile is_space s = strip s @ rev (takeWhile is_space (rev (dropWhile is_space s)))"
proof -
  let ?d = "dropWhile is_space s"
  have "strip s @ rev (takeWhile is_space (rev ?d))
        = rev (takeWhile is_space (rev ?d) @ dropWhile is_space (rev ?d))"
    unfolding strip_def by (simp only: rev_append)
  also have "\<dots> = rev (rev ?d)" by (simp only: takeWhile_dropWhile_id)
  also have "\<dots> = ?d" by (simp only: rev_rev_ident)
  finally show ?thesis by (rule sym)
qed

lemma strip_decomp:
  "\<exists>a b. s = a @ strip s @ b \<and> (\<forall>c\<in>set a. is_space c) \<and> (\<forall>c\<in>set b. is_space c)"
proof -
  let ?a = "takeWhile is_space s"
  let ?d = "dropWhile is_space s"
  let ?b = "rev (takeWhile is_space (rev ?d))"
  have "s = ?a @ ?d" by simp
  also have "?d = strip s @ ?b" by (rule strip_split)
  finally have "s = ?a @ strip s @ ?b" .
  moreover have "\<forall>c\<in>set ?a. is_space c" by (auto dest: set_takeWhileD)
  moreover have "\<forall>c\<in>set ?b. is_space c" by (auto dest: set_takeWhileD)
  ultimately show ?thesis by blast
qed

lemma set_strip: "set (strip s) \<subseteq> set s"
proof
  fix x assume "x \<in> set (strip s)"
  then have "x \<in> set (dropWhile is_space (rev (dropWhile is_space s)))"
    by (simp add: strip_def)
  then have "x \<in> set (rev (dropWhile is_space s))" by (rule set_dropWhileD)
  then have "x \<in> set (dropWhile is_space s)" by simp
  then show "x \<in> set s" by (rule set_dropWhileD)
qed

lemma trimmed_strip: "trimmed (strip s)"
proof (cases "strip s = []")
  case True
  then show ?thesis by (simp add: trimmed_def)
next
  case False
  let ?d = "dropWhile is_space s"
  let ?e = "dropWhile is_space (rev ?d)"
  have e: "?e \<noteq> []" using False by (simp add: strip_def)
  have 1: "\<not> is_space (hd ?e)" using e by (rule hd_dropWhile)
  have l: "last (strip s) = hd ?e" using e by (simp add: strip_def last_rev)
  have dne: "?d \<noteq> []"
  proof
    assume "?d = []"
    then have "strip s = []" by (simp only: strip_def rev.simps dropWhile.simps)
    with False show False by simp
  qed
  have 2: "\<not> is_space (hd ?d)" using dne by (rule hd_dropWhile)
  have "hd ?d = hd (strip s @ rev (takeWhile is_space (rev ?d)))"
    by (rule arg_cong [OF strip_split])
  then have "hd (strip s) = hd ?d" using False by simp
  with 1 2 l show ?thesis by (simp add: trimmed_def)
qed

lemma strip_trimmed: "trimmed s \<Longrightarrow> strip s = s"
proof (cases "s = []")
  case True
  then show ?thesis by (simp add: strip_def)
next
  case False
  assume "trimmed s"
  with False have h: "\<not> is_space (hd s)" and l: "\<not> is_space (last s)"
    by (auto simp: trimmed_def)
  have 1: "dropWhile is_space s = s" using h False by (simp add: dropWhile_eq_self_iff)
  have "hd (rev s) = last s" using False by (simp add: hd_rev)
  then have 2: "dropWhile is_space (rev s) = rev s" using l by (simp add: dropWhile_eq_self_iff)
  show ?thesis by (simp add: strip_def 1 2)
qed

declare digits_nat.simps [simp del]

lemma digits_nat_range: "\<forall>c\<in>set (digits_nat n). 48 \<le> c \<and> c \<le> 57"
proof (induction n rule: digits_nat.induct)
  case (1 n)
  show ?case
  proof (cases "n < 10")
    case True
    then show ?thesis by (subst digits_nat.simps) simp
  next
    case False
    have "n mod 10 < 10" by simp
    then have "48 + n mod 10 \<le> 57" by linarith
    with False "1.IH" show ?thesis by (subst digits_nat.simps) simp
  qed
qed

lemma digits_nat_nonempty: "digits_nat n \<noteq> []"
  by (subst digits_nat.simps) simp

lemma digit_not_space: "48 \<le> c \<Longrightarrow> c \<le> 57 \<Longrightarrow> \<not> is_space c"
  by (simp add: is_space_def)

lemma digits_nat_no_space: "\<forall>c\<in>set (digits_nat n). \<not> is_space c"
  using digits_nat_range digit_not_space by blast

lemma str_int_no_space: "\<forall>c\<in>set (str_int i). \<not> is_space c"
  using digits_nat_no_space by (simp add: str_int_def is_space_def)

lemma str_int_nonempty: "str_int i \<noteq> []"
  by (simp add: str_int_def digits_nat_nonempty)

lemma format_1f_abs_no_space: "\<forall>c\<in>set (format_1f_abs a). \<not> is_space c"
proof -
  have "\<And>n::nat. \<not> is_space (48 + n mod 10)"
  proof -
    fix n :: nat
    have "n mod 10 < 10" by simp
    then have "48 + n mod 10 \<le> 57" by linarith
    then show "\<not> is_space (48 + n mod 10)" by (intro digit_not_space) simp_all
  qed
  then show ?thesis
    using digits_nat_no_space by (simp add: format_1f_abs_def Let_def is_space_def)
qed

lemma format_1f_abs_nonempty: "format_1f_abs a \<noteq> []"
  by (simp add: format_1f_abs_def Let_def)

lemma format_1f_no_space: "\<forall>c\<in>set (format_1f f). \<not> is_space c"
  using format_1f_abs_no_space
  by (cases f) (simp_all add: s2u_def is_space_def)

lemma format_1f_nonempty: "format_1f f \<noteq> []"
  by (cases f) (simp_all add: s2u_def format_1f_abs_nonempty)

lemma no_space_no_lb: "\<forall>c\<in>set s. \<not> is_space c \<Longrightarrow> no_lb s"
  using linebreak_is_space by (auto simp: no_lb_def)

lemma no_space_trimmed: "\<forall>c\<in>set s. \<not> is_space c \<Longrightarrow> trimmed s"
  by (cases s) (auto simp: trimmed_def)

text \<open>preprocess_line\<close>

lemma preprocess_line_cases:
  obtains (conv) rest sp where "strip l = 71 # 48 # sp # rest" "sp = 32 \<or> sp = 9"
      "preprocess_line l = 71 # 49 # sp # rest"
  | (bare) "strip l = [71, 48]" "preprocess_line l = [71, 49]"
  | (keep) "\<not> begins_G0 (strip l)" "preprocess_line l = strip l"
proof (cases "prefix (s2u ''G0 '') (strip l)")
  case True
  then obtain rest where "strip l = 71 # 48 # 32 # rest" by (auto simp: prefix_def s2u_def)
  then show ?thesis using conv [of 32 rest] by (simp add: preprocess_line_def s2u_def)
next
  case sp: False
  show ?thesis
  proof (cases "prefix (s2u ''G0'' @ [9]) (strip l)")
    case True
    then obtain rest where "strip l = 71 # 48 # 9 # rest" by (auto simp: prefix_def s2u_def)
    then show ?thesis using conv [of 9 rest] by (simp add: preprocess_line_def s2u_def)
  next
    case tab: False
    show ?thesis
    proof (cases "strip l = s2u ''G0''")
      case True
      then show ?thesis using bare by (simp add: preprocess_line_def s2u_def)
    next
      case False
      with sp tab show ?thesis using keep by (simp add: preprocess_line_def begins_G0_def)
    qed
  qed
qed

lemma preprocess_line_not_G0: "\<not> begins_G0 (preprocess_line l)"
  by (cases l rule: preprocess_line_cases) (simp_all add: begins_G0_def s2u_def)

lemma preprocess_line_trimmed: "trimmed (preprocess_line l)"
proof (cases l rule: preprocess_line_cases)
  case (conv rest sp)
  have "trimmed (strip l)" by (rule trimmed_strip)
  then have "\<not> is_space (last (sp # rest))" using conv(1) by (simp add: trimmed_def)
  then show ?thesis using conv(3) by (simp add: trimmed_def is_space_def)
next
  case bare
  then show ?thesis by (simp add: trimmed_def is_space_def)
next
  case keep
  then show ?thesis by (simp add: trimmed_strip)
qed

lemma preprocess_line_no_lb: "no_lb l \<Longrightarrow> no_lb (preprocess_line l)"
proof (cases l rule: preprocess_line_cases)
  case (conv rest sp)
  assume "no_lb l"
  then have "no_lb (strip l)" using set_strip [of l] by (auto simp: no_lb_def)
  then show ?thesis using conv by (simp add: no_lb_def is_linebreak_def)
next
  case bare
  then show ?thesis by (simp add: no_lb_def is_linebreak_def)
next
  case keep
  assume "no_lb l"
  then have "no_lb (strip l)" using set_strip [of l] by (auto simp: no_lb_def)
  with keep show ?thesis by simp
qed

lemma preprocess_line_fixed: "trimmed x \<Longrightarrow> \<not> begins_G0 x \<Longrightarrow> preprocess_line x = x"
  by (simp add: preprocess_line_def strip_trimmed begins_G0_def)

lemma preprocess_line_idem: "preprocess_line (preprocess_line l) = preprocess_line l"
  by (rule preprocess_line_fixed [OF preprocess_line_trimmed preprocess_line_not_G0])

lemma sublist_skip_left:
  "pat \<noteq> [] \<Longrightarrow> \<forall>c\<in>set a. c \<noteq> hd pat \<Longrightarrow> sublist pat (a @ y) \<Longrightarrow> sublist pat y"
proof (induction a)
  case Nil
  then show ?case by simp
next
  case (Cons c a)
  from Cons.prems(1) obtain p ps where pat: "pat = p # ps" by (cases pat) auto
  from Cons.prems(2) have ne: "c \<noteq> p" and rest: "\<forall>c\<in>set a. c \<noteq> hd pat" by (simp_all add: pat)
  from Cons.prems(3) have "prefix pat (c # a @ y) \<or> sublist pat (a @ y)"
    by (simp add: sublist_Cons_right)
  moreover have "\<not> prefix pat (c # a @ y)" using ne by (simp add: pat)
  ultimately have "sublist pat (a @ y)" by blast
  then show ?case by (rule Cons.IH [OF Cons.prems(1) rest])
qed

lemma sublist_skip_right:
  assumes "pat \<noteq> []" and "\<forall>c\<in>set b. c \<noteq> last pat" and "sublist pat (y @ b)"
  shows "sublist pat y"
proof -
  have "sublist (rev pat) (rev (y @ b))" using assms(3) by (simp only: sublist_rev)
  then have "sublist (rev pat) (rev b @ rev y)" by simp
  moreover have "rev pat \<noteq> []" using assms(1) by simp
  moreover have "\<forall>c\<in>set (rev b). c \<noteq> hd (rev pat)" using assms(1,2) by (simp add: hd_rev)
  ultimately have "sublist (rev pat) (rev y)" by (rule sublist_skip_left [rotated 2])
  then show ?thesis by (simp only: sublist_rev)
qed

lemma lower_append: "lower (a @ b) = lower a @ lower b"
  by (simp add: lower_def)

lemma lower_cp_space: "is_space c \<Longrightarrow> lower_cp c = [c]"
  by (auto simp: is_space_def lower_cp_def)

lemma lower_spaces: "\<forall>c\<in>set a. is_space c \<Longrightarrow> lower a = a"
  by (induction a) (simp_all add: lower_def lower_cp_space)

lemma machine_pat_eq: "machine_pat = [59, 32, 109, 97, 99, 104, 105, 110, 101]"
  by (simp add: machine_pat_def s2u_def)

lemma machine_in_strip:
  assumes "sublist machine_pat (lower l)"
  shows "sublist machine_pat (lower (strip l))"
proof -
  obtain a b where l: "l = a @ strip l @ b" and a: "\<forall>c\<in>set a. is_space c"
    and b: "\<forall>c\<in>set b. is_space c"
    using strip_decomp by blast
  have "lower l = lower a @ lower (strip l) @ lower b"
    by (subst l) (simp only: lower_append)
  then have eq: "lower l = a @ lower (strip l) @ b" by (simp only: lower_spaces [OF a] lower_spaces [OF b])
  have ne: "machine_pat \<noteq> []" by (simp add: machine_pat_eq)
  have "\<not> is_space 59" and "\<not> is_space 101" by (simp_all add: is_space_def)
  then have a': "\<forall>c\<in>set a. c \<noteq> hd machine_pat" and b': "\<forall>c\<in>set b. c \<noteq> last machine_pat"
    using a b by (auto simp: machine_pat_eq)
  have "sublist machine_pat (a @ lower (strip l) @ b)" using assms eq by simp
  then have "sublist machine_pat (lower (strip l) @ b)" by (rule sublist_skip_left [OF ne a'])
  then show ?thesis by (rule sublist_skip_right [OF ne b'])
qed

lemma machine_in_preprocess_line:
  assumes "sublist machine_pat (lower l)"
  shows "sublist machine_pat (lower (preprocess_line l))"
proof (cases l rule: preprocess_line_cases)
  case (conv rest sp)
  have ne: "machine_pat \<noteq> []" by (simp add: machine_pat_eq)
  have "lower (strip l) = [103, 48] @ lower (sp # rest)"
    by (simp add: conv(1) lower_def lower_cp_def)
  then have "sublist machine_pat ([103, 48] @ lower (sp # rest))"
    using machine_in_strip [OF assms] by simp
  then have "sublist machine_pat (lower (sp # rest))"
    by (rule sublist_skip_left [OF ne, rotated]) (simp add: machine_pat_eq)
  then have "sublist machine_pat ([103, 49] @ lower (sp # rest))"
    by (metis sublist_append)
  moreover have "lower (preprocess_line l) = [103, 49] @ lower (sp # rest)"
    by (simp add: conv(3) lower_def lower_cp_def)
  ultimately show ?thesis by simp
next
  case bare
  have "lower (strip l) = [103, 48]" by (simp add: bare(1) lower_def lower_cp_def)
  then have "sublist machine_pat [103, 48]" using machine_in_strip [OF assms] by simp
  then show ?thesis by (simp add: machine_pat_eq sublist_code)
next
  case keep
  then show ?thesis using machine_in_strip [OF assms] by simp
qed

lemma has_machine_map:
  assumes "has_machine ls"
  shows "has_machine (map preprocess_line ls)"
proof -
  from assms obtain l where l: "l \<in> set (take 50 ls)" and m: "sublist machine_pat (lower l)"
    by (auto simp: has_machine_def list_ex_iff machine_pat_def)
  have "preprocess_line l \<in> set (take 50 (map preprocess_line ls))"
    using l by (simp add: take_map)
  moreover have "sublist machine_pat (lower (preprocess_line l))"
    by (rule machine_in_preprocess_line [OF m])
  ultimately show ?thesis
    unfolding has_machine_def list_ex_iff machine_pat_def by blast
qed

lemma has_machine_append: "has_machine xs \<Longrightarrow> has_machine (xs @ ys)"
  by (auto simp: has_machine_def list_ex_iff dest: in_set_takeD)

section \<open>Theorems: the G-code preprocessor\<close>

lemma no_lb_append: "no_lb (a @ b) \<longleftrightarrow> no_lb a \<and> no_lb b"
  by (auto simp: no_lb_def)

lemma no_lb_lit: "no_lb (s2u ''; machine = '')" "no_lb (s2u ''; print_time = '')"
  "no_lb (s2u ''; total_filament = '')" "no_lb (s2u ''; nozzle_diameter = 0.4'')"
  "no_lb (s2u ''; layer_height = 0.2'')" "no_lb (s2u ''; filament_diameter = 1.75'')"
  "no_lb (s2u ''; filament_type = PLA'')"
  by (simp_all add: no_lb_def s2u_def is_linebreak_def)

lemma header_no_lb:
  assumes "no_lb m"
  shows "\<forall>l\<in>set (header_block m t f). no_lb l"
  using assms no_space_no_lb [OF str_int_no_space] no_space_no_lb [OF format_1f_no_space]
  by (simp add: header_block_def no_lb_append no_lb_lit) (simp add: no_lb_def)

lemma trimmed_lit_append:
  "b \<noteq> [] \<Longrightarrow> \<not> is_space (last b) \<Longrightarrow> a \<noteq> [] \<Longrightarrow> \<not> is_space (hd a) \<Longrightarrow> trimmed (a @ b)"
  by (simp add: trimmed_def)

lemma last_no_space: "b \<noteq> [] \<Longrightarrow> \<forall>c\<in>set b. \<not> is_space c \<Longrightarrow> \<not> is_space (last b)"
  using last_in_set by blast

lemma header_fixed:
  assumes "m \<noteq> []" and "\<not> is_space (last m)"
  shows "map preprocess_line (header_block m t f) = header_block m t f"
proof -
  have G0: "\<And>x. \<not> begins_G0 (59 # x)" "\<not> begins_G0 []"
    by (simp_all add: begins_G0_def s2u_def)
  have 1: "trimmed (s2u ''; machine = '' @ m)"
    by (rule trimmed_lit_append [OF assms]) (simp_all add: s2u_def is_space_def)
  have 2: "trimmed (s2u ''; print_time = '' @ str_int t)"
    by (rule trimmed_lit_append [OF str_int_nonempty
          last_no_space [OF str_int_nonempty str_int_no_space]])
      (simp_all add: s2u_def is_space_def)
  have 3: "trimmed (s2u ''; total_filament = '' @ format_1f f)"
    by (rule trimmed_lit_append [OF format_1f_nonempty
          last_no_space [OF format_1f_nonempty format_1f_no_space]])
      (simp_all add: s2u_def is_space_def)
  have 4: "trimmed (s2u ''; nozzle_diameter = 0.4'')" "trimmed (s2u ''; layer_height = 0.2'')"
    "trimmed (s2u ''; filament_diameter = 1.75'')" "trimmed (s2u ''; filament_type = PLA'')"
    "trimmed []"
    by (simp_all add: trimmed_def s2u_def is_space_def)
  have g: "\<not> begins_G0 (s2u ''; machine = '' @ m)"
    "\<not> begins_G0 (s2u ''; print_time = '' @ str_int t)"
    "\<not> begins_G0 (s2u ''; total_filament = '' @ format_1f f)"
    "\<not> begins_G0 (s2u ''; nozzle_diameter = 0.4'')" "\<not> begins_G0 (s2u ''; layer_height = 0.2'')"
    "\<not> begins_G0 (s2u ''; filament_diameter = 1.75'')"
    "\<not> begins_G0 (s2u ''; filament_type = PLA'')"
    using G0 by (simp_all add: s2u_def)
  show ?thesis
    unfolding header_block_def
    by (simp only: list.map preprocess_line_fixed [OF 1 g(1)] preprocess_line_fixed [OF 2 g(2)]
        preprocess_line_fixed [OF 3 g(3)] preprocess_line_fixed [OF 4(1) g(4)]
        preprocess_line_fixed [OF 4(2) g(5)] preprocess_line_fixed [OF 4(3) g(6)]
        preprocess_line_fixed [OF 4(4) g(7)] preprocess_line_fixed [OF 4(5) G0(2)])
qed

lemma header_has_machine: "has_machine (header_block m t f @ rest)"
proof -
  have "lower (s2u ''; machine = '' @ m) = machine_pat @ (s2u '' = '' @ lower m)"
    by (simp add: lower_def lower_cp_def s2u_def machine_pat_def)
  then have "sublist machine_pat (lower (s2u ''; machine = '' @ m))" by simp
  then show ?thesis
    by (simp add: has_machine_def header_block_def machine_pat_def)
qed

lemma header_not_G0: "\<forall>l\<in>set (header_block m t f). \<not> begins_G0 l"
  by (simp add: header_block_def begins_G0_def s2u_def)

lemma preprocess_lines_no_lb:
  assumes "no_lb m"
  shows "\<forall>l\<in>set (preprocess_lines m g t f). no_lb l"
  using header_no_lb [OF assms] preprocess_line_no_lb splitlines_no_lb
  by (auto simp: preprocess_lines_def Let_def)

lemma has_machine_nonempty: "has_machine ls \<Longrightarrow> ls \<noteq> []"
  by (auto simp: has_machine_def)

lemma preprocess_lines_nonempty: "preprocess_lines m g t f \<noteq> []"
  using has_machine_nonempty [of "splitlines g"]
  by (auto simp: preprocess_lines_def Let_def header_block_def)

lemma splitlines_preprocess_gcode:
  assumes "no_lb m"
  shows "splitlines (preprocess_gcode m g t f) = preprocess_lines m g t f"
  unfolding preprocess_gcode_def
  by (rule splitlines_join_nl [OF preprocess_lines_nonempty preprocess_lines_no_lb [OF assms]])

lemma preprocess_lines_not_G0: "\<forall>l\<in>set (preprocess_lines m g t f). \<not> begins_G0 l"
  using header_not_G0 preprocess_line_not_G0
  by (auto simp: preprocess_lines_def Let_def)

lemma preprocess_lines_has_machine: "has_machine (preprocess_lines m g t f)"
  using header_has_machine has_machine_map
  by (auto simp: preprocess_lines_def Let_def)

lemma preprocess_lines_fixed:
  assumes "m \<noteq> []" and "\<not> is_space (last m)"
  shows "map preprocess_line (preprocess_lines m g t f) = preprocess_lines m g t f"
  using header_fixed [OF assms] preprocess_line_idem
  by (simp add: preprocess_lines_def Let_def)

text \<open>
  C8: no line of the preprocessor's output that is not a comment begins with a \<^verbatim>\<open>G0\<close>
  token. The lines of the output are those \<^verbatim>\<open>splitlines\<close> gives; the model identifier,
  which is copied into the injected header, is assumed to contain no line boundary.
\<close>

theorem C8_no_G0:
  assumes "\<forall>c\<in>set model. \<not> is_linebreak c"
  shows "\<forall>line\<in>set (splitlines (preprocess_gcode model gcode t f)).
           \<not> is_comment line \<longrightarrow> \<not> begins_G0 line"
proof -
  have "no_lb model" using assms by (simp add: no_lb_def)
  then show ?thesis
    using preprocess_lines_not_G0 by (simp add: splitlines_preprocess_gcode)
qed

theorem C8_no_G0_witness:
  "list_all (\<lambda>c. \<not> is_linebreak c) (s2u ''dv1MX0A000'') \<and>
   list_all (\<lambda>line. is_comment line \<or> \<not> begins_G0 line)
     (splitlines (preprocess_gcode (s2u ''dv1MX0A000'')
        (s2u ''G0 X10 Y20'' @ [13, 10] @ s2u ''  G0'' @ [9] @ s2u ''Z5 '' @ [10] @ s2u ''G0'')
        60 (Finite 1000)))"
proof -
  have h: "\<forall>c\<in>set (s2u ''dv1MX0A000''). \<not> is_linebreak c"
    by (simp add: s2u_def is_linebreak_def)
  from C8_no_G0 [OF h] h show ?thesis by (auto simp: list_all_iff)
qed

text \<open>
  C5: the preprocessor is idempotent, for every G-code text, print time and filament
  value. The model identifier is assumed to be what the injected header line needs to
  survive a second pass unchanged: not empty, without a line boundary, and not ending in
  white space.
\<close>

theorem C5_idempotent:
  assumes "\<forall>c\<in>set model. \<not> is_linebreak c"
    and "model \<noteq> []" and "\<not> is_space (last model)"
  shows "preprocess_gcode model (preprocess_gcode model gcode t f) t f
         = preprocess_gcode model gcode t f"
proof -
  have m: "no_lb model" using assms(1) by (simp add: no_lb_def)
  let ?R = "preprocess_lines model gcode t f"
  have "preprocess_lines model (preprocess_gcode model gcode t f) t f
        = map preprocess_line ?R"
    using preprocess_lines_has_machine [of model gcode t f]
    by (simp add: preprocess_lines_def [of model "preprocess_gcode model gcode t f"]
        splitlines_preprocess_gcode [OF m])
  also have "\<dots> = ?R" by (rule preprocess_lines_fixed [OF assms(2,3)])
  finally show ?thesis by (simp add: preprocess_gcode_def)
qed

theorem C5_idempotent_witness:
  "list_all (\<lambda>c. \<not> is_linebreak c) (s2u ''dv1MX0A000'') \<and>
   preprocess_gcode (s2u ''dv1MX0A000'')
     (preprocess_gcode (s2u ''dv1MX0A000'') (s2u ''G0 X10 Y20'' @ [10] @ s2u '' G1 Z0.2 '')
        3600 (Finite (12347 / 10))) 3600 (Finite (12347 / 10))
   = preprocess_gcode (s2u ''dv1MX0A000'') (s2u ''G0 X10 Y20'' @ [10] @ s2u '' G1 Z0.2 '')
        3600 (Finite (12347 / 10))"
proof -
  have h: "\<forall>c\<in>set (s2u ''dv1MX0A000''). \<not> is_linebreak c"
    by (simp add: s2u_def is_linebreak_def)
  have n: "s2u ''dv1MX0A000'' \<noteq> []" "\<not> is_space (last (s2u ''dv1MX0A000''))"
    by (simp_all add: s2u_def is_space_def)
  from C5_idempotent [OF h n] h show ?thesis by (simp add: list_all_iff)
qed

section \<open>Theorems: print information\<close>

text \<open>
  C9: on the empty string \<^verbatim>\<open>extract_print_info\<close> returns print time 60, filament 1000 and
  layer count 0, whatever the regular-expression library does: no line is ever matched.
\<close>

theorem C9_extract_empty:
  "extract_print_info L [] =
     Inr \<lparr>print_time_sec = 60, filament_mm = PInt 1000, layer_count = 0\<rparr>"
  by (simp add: extract_print_info_def g1_count_def num_is_zero_def num_gt_def)

section \<open>Theorems: the command surface\<close>

lemmas command_defs =
  home_def load_filament_start_def load_filament_cancel_def unload_filament_start_def
  unload_filament_cancel_def cancel_print_def pause_print_def resume_print_def
  calibrate_start_def clean_nozzle_start_def clean_nozzle_cancel_def jog_def
  z_offset_set_def auto_level_on_def auto_level_off_def buzzer_on_def buzzer_off_def

text \<open>
  C4, as stated, fails: the buzzer and auto-level toggles return success only when the
  reply contains \<^verbatim>\<open>ok\<close>. On an empty reply, which has no \<^verbatim>\<open>E0\<close> in it, \<^verbatim>\<open>buzzer_on\<close>
  returns False.
\<close>

theorem C4_buzzer_on_counterexample:
  "\<not> (run_command (\<lambda>c. Inr []) BuzzerOn \<longleftrightarrow>
       (sublist (s2u ''ok'') (lower []) \<or> \<not> sublist (s2u ''E0'') []))"
  by (simp add: buzzer_on_def s2u_def lower_def)

text \<open>
  C4, amended: when the transport returns the reply \<open>resp\<close>, every command other than the
  auto-level and buzzer toggles succeeds iff \<open>resp\<close> contains \<^verbatim>\<open>ok\<close> in any letter case or
  does not contain \<^verbatim>\<open>E0\<close>; the auto-level and buzzer toggles succeed iff \<open>resp\<close> contains
  \<^verbatim>\<open>ok\<close> in any letter case.
\<close>

theorem C4_command_success:
  assumes "\<And>c. send c = Inr resp"
  shows "run_command send cmd \<longleftrightarrow>
           (if ok_only cmd then sublist (s2u ''ok'') (lower resp)
            else sublist (s2u ''ok'') (lower resp) \<or> \<not> sublist (s2u ''E0'') resp)"
  by (cases cmd) (simp_all add: command_defs assms)

theorem C4_command_success_witness:
  "run_command (\<lambda>c. Inr (s2u ''E0 OK'')) Home \<and> \<not> run_command (\<lambda>c. Inr (s2u ''E0'')) Home
   \<and> \<not> run_command (\<lambda>c. Inr (s2u ''done'')) BuzzerOff"
  using C4_command_success [of "\<lambda>c. Inr (s2u ''E0 OK'')" "s2u ''E0 OK''" Home]
        C4_command_success [of "\<lambda>c. Inr (s2u ''E0'')" "s2u ''E0''" Home]
        C4_command_success [of "\<lambda>c. Inr (s2u ''done'')" "s2u ''done''" BuzzerOff]
  by (simp add: s2u_def lower_def lower_cp_def sublist_code)

section \<open>Theorems: the status query\<close>

lemmas status_eval =
  s2u_def is_space_def is_linebreak_def splitlines.simps(2) strip_def
  dot_before_key_def is_ascii_letter_def is_digit_def py_int_def
  parse_j_def parse_t_def parse_n_def parse_d_def parse_f_def parse_segment_def
  parse_status_line_def query_status_def new_status_def Let_def

lemma re_split_fields_nonempty: "re_split_fields s \<noteq> []"
  by (induction s) (auto split: list.splits)

lemma join_dot_Cons: "ls \<noteq> [] \<Longrightarrow> join_dot (x # ls) = x @ 46 # join_dot ls"
  by (cases ls) simp_all

lemma join_dot_re_split_fields: "join_dot (re_split_fields s) = s"
proof (induction s)
  case Nil
  show ?case by simp
next
  case (Cons c cs)
  show ?case
  proof (cases "dot_before_key c cs")
    case True
    then have "c = 46" by (simp add: dot_before_key_def)
    with True Cons show ?thesis
      by (simp add: join_dot_Cons [OF re_split_fields_nonempty])
  next
    case False
    obtain l ls where l: "re_split_fields cs = l # ls"
      using re_split_fields_nonempty [of cs] by (cases "re_split_fields cs") auto
    have "join_dot ((c # l) # ls) = c # join_dot (l # ls)" by (cases ls) simp_all
    with False Cons l show ?thesis by simp
  qed
qed

lemma re_split_fields_keys: "\<forall>seg\<in>set (tl (re_split_fields s)). starts_with_key seg"
proof (induction s)
  case Nil
  show ?case by simp
next
  case (Cons c cs)
  obtain l ls where l: "re_split_fields cs = l # ls"
    using re_split_fields_nonempty [of cs] by (cases "re_split_fields cs") auto
  show ?case
  proof (cases "dot_before_key c cs")
    case True
    then obtain a rest where cs: "cs = a # 58 # rest" and a: "is_ascii_letter a"
      by (auto simp: dot_before_key_def split: list.splits)
    have "\<not> dot_before_key a (58 # rest)" using a
      by (auto simp: dot_before_key_def is_ascii_letter_def)
    moreover have "\<not> dot_before_key 58 rest" by (simp add: dot_before_key_def)
    ultimately have "\<exists>t. l = a # 58 # t"
      using l unfolding cs by (auto split: list.splits)
    then have "starts_with_key l" using a by (auto simp: starts_with_key_def)
    with True Cons l show ?thesis by simp
  next
    case False
    with Cons l show ?thesis by simp
  qed
qed

text \<open>
  C7: the reply \<^verbatim>\<open>v:1.3.5.j:9002,0\<close> gives firmware version \<^verbatim>\<open>1.3.5\<close> and state 9002. For
  every line, the segments joined by dots give the line back, and every segment after
  the first starts with a letter and a colon: a dot not followed by these is kept.
\<close>

theorem C7_firmware_dots:
  "firmware_version (query_status (\<lambda>c. Inr (s2u ''v:1.3.5.j:9002,0''))) = s2u ''1.3.5'' \<and>
   state (query_status (\<lambda>c. Inr (s2u ''v:1.3.5.j:9002,0''))) = 9002 \<and>
   re_split_fields (s2u ''v:1.3.5.j:9002,0'') = [s2u ''v:1.3.5'', s2u ''j:9002,0''] \<and>
   join_dot (re_split_fields line) = line \<and>
   (\<forall>seg\<in>set (tl (re_split_fields line)). starts_with_key seg)"
proof -
  have 1: "re_split_fields (s2u ''v:1.3.5.j:9002,0'') = [s2u ''v:1.3.5'', s2u ''j:9002,0'']"
    by (simp add: status_eval)
  have 2: "query_status (\<lambda>c. Inr (s2u ''v:1.3.5.j:9002,0''))
           = new_status\<lparr>firmware_version := s2u ''1.3.5'', state := 9002, sub_state := 0\<rparr>"
    by (simp add: status_eval)
  show ?thesis
    using join_dot_re_split_fields re_split_fields_keys
    by (simp add: 1 2)
qed

theorem C7_firmware_dots_witness:
  "re_split_fields (s2u ''s:A.b.v:1.3.5.j:9'') = [s2u ''s:A.b'', s2u ''v:1.3.5'', s2u ''j:9''] \<and>
   join_dot (re_split_fields (s2u ''s:A.b.v:1.3.5.j:9'')) = s2u ''s:A.b.v:1.3.5.j:9'' \<and>
   list_all starts_with_key (tl (re_split_fields (s2u ''s:A.b.v:1.3.5.j:9'')))"
proof -
  have 1: "re_split_fields (s2u ''s:A.b.v:1.3.5.j:9'')
           = [s2u ''s:A.b'', s2u ''v:1.3.5'', s2u ''j:9'']"
    by (simp add: status_eval)
  from C7_firmware_dots [of "s2u ''s:A.b.v:1.3.5.j:9''"] show ?thesis
    by (simp add: 1 list_all_iff)
qed

end
